theory Spec2Isabelle
  imports Main "HOL-Library.Word"
begin

section \<open>Field parsing of the DSMR P1 parser (src/dsmr/fields.h)\<close>

subsection \<open>Spans, results and the collaborators of parser.h and util.h\<close>

text \<open>
  A parse operation of fields.h takes two pointers, \<open>str\<close> and \<open>end\<close>. The model passes
  the bytes of the half-open span \<open>[str, end)\<close> as a list. A pointer \<open>p\<close> into the span
  (\<open>str \<le> p \<le> end\<close>) is the list of the bytes of \<open>[p, end)\<close>: the cursor \<open>end\<close> is the
  empty list, and \<open>end - str\<close> is the length of the span.
\<close>

type_synonym span = string

text \<open>Modelled from the spec: \<open>ParseResult\<close> is declared in parser.h, which is not part of the
  sources at hand. The spec (4.1, 7) describes it as a tagged result, success with the cursor
  after the consumed token or failure with an error kind and the failing sub-span; fields.h
  reads its members \<open>result\<close>, \<open>next\<close>, \<open>err\<close> and sets the cursor with \<open>until\<close>.\<close>

datatype error_kind = InvalidLength | InvalidFormat | UnitMismatch

datatype 'a ParseResult =
    Success (result: 'a) (nxt: span)
  | Failure (err: error_kind) (ctx: span)

text \<open>The conversion of a \<open>ParseResult<T>\<close> to the \<open>ParseResult<void>\<close> a field's parse returns.\<close>

fun to_void :: "'a ParseResult \<Rightarrow> unit ParseResult" where
  "to_void (Success v n) = Success () n"
| "to_void (Failure k c) = Failure k c"

text \<open>The wire form of a value: the payload between its parentheses, as the comments of
  fields.h write it, \<open>1-0:1.8.0(000441.879*kWh)\<close> and \<open>0-1:24.2.1(150117180000W)(00473.789*m3)\<close>.\<close>

definition token :: "string \<Rightarrow> span" where
  "token s = CHR ''('' # s @ '')''"


text \<open>Modelled from the spec: \<open>StringParser::parse_string\<close> is defined in parser.h, which is not
  part of the sources at hand. Spec 4.2: a bounded string scanner that accepts a token whose
  text has a length in \<open>[min, max]\<close>, fails with InvalidLength outside the bounds and yields
  the text unchanged otherwise. The token is delimited by parentheses, as the wire examples in
  the comments of fields.h show and as the composition in \<open>TimestampedFixedField\<close> needs to
  find where the timestamp ends; the cursor returned is the one after the closing parenthesis.\<close>

definition parse_string :: "nat \<Rightarrow> nat \<Rightarrow> span \<Rightarrow> string ParseResult" where
  "parse_string min_len max_len str =
     (case str of
        [] \<Rightarrow> Failure InvalidFormat str
      | c # cs \<Rightarrow>
          if c \<noteq> CHR ''('' then Failure InvalidFormat str
          else
            let s = takeWhile (\<lambda>x. x \<noteq> CHR '')'') cs;
                r = dropWhile (\<lambda>x. x \<noteq> CHR '')'') cs
            in if r = [] then Failure InvalidFormat r
               else if length s < min_len \<or> max_len < length s then Failure InvalidLength cs
               else Success s (tl r))"

text \<open>Modelled from the spec: the parts of \<open>NumParser::parse\<close> (parser.h, not part of the
  sources at hand): a decimal digit and its value, the value of a digit string in \<open>uint32_t\<close>
  arithmetic (modulo \<open>2 ^ 32\<close>), the text that stands for a unit (nothing for the empty
  label, a \<open>*\<close> and the label otherwise), and the check of unit and closing parenthesis.\<close>

definition is_digit :: "char \<Rightarrow> bool" where
  "is_digit c \<longleftrightarrow> c \<in> set ''0123456789''"

definition digit_val :: "char \<Rightarrow> nat" where
  "digit_val c = of_char c - of_char (CHR ''0'')"

definition digits_value :: "string \<Rightarrow> 32 word" where
  "digits_value ds = foldl (\<lambda>v c. v * 10 + of_nat (digit_val c)) 0 ds"

definition unit_suffix :: "string \<Rightarrow> string" where
  "unit_suffix unit = (if unit = [] then [] else CHR ''*'' # unit)"

definition check_unit :: "string \<Rightarrow> 32 word \<Rightarrow> span \<Rightarrow> 32 word ParseResult" where
  "check_unit unit v r =
     (let expected = unit_suffix unit @ '')''
      in if take (length expected) r = expected then Success v (drop (length expected) r)
         else if r \<noteq> [] \<and> (hd r = CHR ''*'' \<or> hd r = CHR '')'') then Failure UnitMismatch r
         else Failure InvalidFormat r)"

text \<open>Modelled from the spec: \<open>NumParser::parse\<close> is defined in parser.h, which is not part of
  the sources at hand. Spec 4.4, 4.6, 7: it decodes a decimal token with at most
  \<open>max_decimals\<close> fraction digits and the expected unit label after a \<open>*\<close> into the integer
  scaled by \<open>10 ^ max_decimals\<close>; a malformed number is InvalidFormat, a unit other than the
  expected one is UnitMismatch. The result is a \<open>uint32_t\<close>. The token is delimited by
  parentheses as for \<open>parse_string\<close>.\<close>

definition NumParser_parse :: "nat \<Rightarrow> string \<Rightarrow> span \<Rightarrow> 32 word ParseResult" where
  "NumParser_parse max_decimals unit str =
     (case str of
        [] \<Rightarrow> Failure InvalidFormat str
      | c # cs \<Rightarrow>
          if c \<noteq> CHR ''('' then Failure InvalidFormat str
          else
            let ip = takeWhile is_digit cs;
                r1 = dropWhile is_digit cs
            in if ip = [] then Failure InvalidFormat r1
               else
                 let has_frac = (0 < max_decimals \<and> r1 \<noteq> [] \<and> hd r1 = CHR ''.'');
                     fp = (if has_frac then takeWhile is_digit (take max_decimals (tl r1)) else []);
                     r2 = (if has_frac then drop (length fp) (tl r1) else r1)
                 in check_unit unit
                      (digits_value (ip @ fp) * 10 ^ (max_decimals - length fp)) r2)"

subsection \<open>Value types and field records\<close>

text \<open>\<open>struct FixedValue { uint32_t _value; }\<close> and
  \<open>struct TimestampedFixedValue : FixedValue { String timestamp; }\<close>. The member \<open>_value\<close> is
  \<open>raw_value\<close> here, since a name cannot begin with an underscore.\<close>

record FixedValue =
  raw_value :: "32 word"

record TimestampedFixedValue = FixedValue +
  timestamp :: string

text \<open>The data members \<open>DEFINE_FIELD\<close> gives every field: the storage slot, reached through
  \<open>val()\<close>, and the presence flag, reached through \<open>present()\<close>. \<open>new_field\<close> is a field
  as constructed: the flag has the default member initialiser \<open>false\<close>, the slot whatever
  value \<open>v0\<close> its construction leaves in it.\<close>

record 'v field =
  val :: 'v
  present :: bool

definition new_field :: "'v \<Rightarrow> 'v field" where
  "new_field v0 = \<lparr>val = v0, present = False\<rparr>"

subsection \<open>The field types\<close>

text \<open>A parse operation returns its \<open>ParseResult<void>\<close> and the field after the call. The scanners
  of parser.h and the helper of util.h are parameters: \<open>ps\<close> stands for
  \<open>StringParser::parse_string\<close>, \<open>np\<close> for \<open>NumParser::parse\<close> and \<open>ch\<close> for \<open>concat_hack\<close>.\<close>

type_synonym string_scanner = "nat \<Rightarrow> nat \<Rightarrow> span \<Rightarrow> string ParseResult"
type_synonym num_scanner = "nat \<Rightarrow> string \<Rightarrow> span \<Rightarrow> 32 word ParseResult"
type_synonym string_helper = "string \<Rightarrow> span \<Rightarrow> nat \<Rightarrow> string"

definition StringField_parse ::
  "string_scanner \<Rightarrow> nat \<Rightarrow> nat \<Rightarrow> span \<Rightarrow> string field \<Rightarrow> unit ParseResult \<times> string field" where
  "StringField_parse ps minlen maxlen str f =
     (let res = ps minlen maxlen str
      in case res of
           Success r n \<Rightarrow> (to_void res, f\<lparr>val := r\<rparr>)
         | Failure k c \<Rightarrow> (to_void res, f))"

definition TimestampField_parse ::
  "string_scanner \<Rightarrow> span \<Rightarrow> string field \<Rightarrow> unit ParseResult \<times> string field" where
  "TimestampField_parse ps str f = StringField_parse ps 13 13 str f"

definition FixedField_parse ::
  "num_scanner \<Rightarrow> string \<Rightarrow> string \<Rightarrow> span \<Rightarrow> 'a FixedValue_scheme field
     \<Rightarrow> unit ParseResult \<times> 'a FixedValue_scheme field" where
  "FixedField_parse np unit int_unit str f =
     (let res_float = np 3 unit str
      in case res_float of
           Success v n \<Rightarrow> (to_void res_float, f\<lparr>val := (val f)\<lparr>raw_value := v\<rparr>\<rparr>)
         | Failure k c \<Rightarrow>
             (let res_int = np 0 int_unit str
              in case res_int of
                   Success v n \<Rightarrow> (to_void res_int, f\<lparr>val := (val f)\<lparr>raw_value := v\<rparr>\<rparr>)
                 | Failure k' c' \<Rightarrow> (to_void res_float, f)))"

definition TimestampedFixedField_parse ::
  "string_scanner \<Rightarrow> num_scanner \<Rightarrow> string \<Rightarrow> string \<Rightarrow> span
     \<Rightarrow> 'a TimestampedFixedValue_scheme field
     \<Rightarrow> unit ParseResult \<times> 'a TimestampedFixedValue_scheme field" where
  "TimestampedFixedField_parse ps np unit int_unit str f =
     (let res = ps 13 13 str
      in case res of
           Failure k c \<Rightarrow> (to_void res, f)
         | Success ts n \<Rightarrow>
             FixedField_parse np unit int_unit n (f\<lparr>val := (val f)\<lparr>timestamp := ts\<rparr>\<rparr>))"

definition IntField_parse ::
  "num_scanner \<Rightarrow> string \<Rightarrow> span \<Rightarrow> (32 word) field \<Rightarrow> unit ParseResult \<times> (32 word) field" where
  "IntField_parse np unit str f =
     (let res = np 0 unit str
      in case res of
           Success v n \<Rightarrow> (to_void res, f\<lparr>val := v\<rparr>)
         | Failure k c \<Rightarrow> (to_void res, f))"

definition RawField_parse ::
  "string_helper \<Rightarrow> span \<Rightarrow> string field \<Rightarrow> unit ParseResult \<times> string field" where
  "RawField_parse ch str f =
     (Success () [], f\<lparr>val := ch (val f) str (length str)\<rparr>)"

subsection \<open>The field catalog\<close>

text \<open>The unit labels of \<open>struct units\<close>.\<close>

definition units_none :: string where "units_none = ''''"
definition units_kWh :: string where "units_kWh = ''kWh''"
definition units_Wh :: string where "units_Wh = ''Wh''"
definition units_kW :: string where "units_kW = ''kW''"
definition units_W :: string where "units_W = ''W''"
definition units_V :: string where "units_V = ''V''"
definition units_mV :: string where "units_mV = ''mV''"
definition units_A :: string where "units_A = ''A''"
definition units_mA :: string where "units_mA = ''mA''"
definition units_m3 :: string where "units_m3 = ''m3''"
definition units_dm3 :: string where "units_dm3 = ''dm3''"
definition units_GJ :: string where "units_GJ = ''GJ''"
definition units_MJ :: string where "units_MJ = ''MJ''"
definition units_kvar :: string where "units_kvar = ''kvar''"
definition units_kvarh :: string where "units_kvarh = ''kvarh''"
definition units_Hz :: string where "units_Hz = ''Hz''"

text \<open>Modelled from the spec: \<open>ObisId\<close> is declared in parser.h, which is not part of the sources
  at hand. Spec 3: a six-component identifier compared by equality. The catalog writes the
  identification id with six components and every other id with five; the value the
  constructor gives the omitted sixth component is not in fields.h, so \<open>ObisId5\<close> takes it as
  its first argument \<open>d\<close>.\<close>

datatype ObisId = ObisId "8 word" "8 word" "8 word" "8 word" "8 word" "8 word"

definition ObisId5 :: "8 word \<Rightarrow> 8 word \<Rightarrow> 8 word \<Rightarrow> 8 word \<Rightarrow> 8 word \<Rightarrow> 8 word \<Rightarrow> ObisId" where
  "ObisId5 d a b c e f = ObisId a b c e f d"

text \<open>The arguments of \<open>DEFINE_FIELD(fieldname, value_t, obis, field_t, field_args...)\<close>: the
  static part of a catalog entry.\<close>

datatype value_t = T_String | T_FixedValue

datatype field_t =
  RawField | TimestampField | StringField | FixedField | TimestampedFixedField | IntField

datatype field_arg = Len nat | Unit string

record field_def =
  fieldname :: string
  value_type :: value_t
  obis :: ObisId
  field_type :: field_t
  field_args :: "field_arg list"

definition DEFINE_FIELD ::
  "string \<Rightarrow> value_t \<Rightarrow> ObisId \<Rightarrow> field_t \<Rightarrow> field_arg list \<Rightarrow> field_def" where
  "DEFINE_FIELD n vt i ft args =
     \<lparr>fieldname = n, value_type = vt, obis = i, field_type = ft, field_args = args\<rparr>"

definition identification :: field_def where
  "identification =
     DEFINE_FIELD ''identification'' T_String (ObisId 255 255 255 255 255 255) RawField []"

definition frequency :: "8 word \<Rightarrow> field_def" where
  "frequency d =
     DEFINE_FIELD ''frequency'' T_FixedValue (ObisId5 d 1 0 14 7 0) FixedField [Unit units_Hz]"

definition catalog :: "8 word \<Rightarrow> field_def list" where
  "catalog d =
   [ identification,
     DEFINE_FIELD ''timestamp'' T_String (ObisId5 d 0 0 1 0 0) TimestampField [],
     DEFINE_FIELD ''equipment_id'' T_String (ObisId5 d 0 0 96 1 0) StringField [Len 0, Len 96],
     DEFINE_FIELD ''energy_delivered_lux'' T_FixedValue (ObisId5 d 1 0 1 8 0) FixedField
       [Unit units_kWh, Unit units_Wh],
     DEFINE_FIELD ''energy_delivered_tariff1'' T_FixedValue (ObisId5 d 1 0 1 8 1) FixedField
       [Unit units_kWh, Unit units_Wh],
     DEFINE_FIELD ''energy_delivered_tariff2'' T_FixedValue (ObisId5 d 1 0 1 8 2) FixedField
       [Unit units_kWh, Unit units_Wh],
     DEFINE_FIELD ''energy_returned_lux'' T_FixedValue (ObisId5 d 1 0 2 8 0) FixedField
       [Unit units_kWh, Unit units_Wh],
     DEFINE_FIELD ''energy_returned_tariff1'' T_FixedValue (ObisId5 d 1 0 2 8 1) FixedField
       [Unit units_kWh, Unit units_Wh],
     DEFINE_FIELD ''energy_returned_tariff2'' T_FixedValue (ObisId5 d 1 0 2 8 2) FixedField
       [Unit units_kWh, Unit units_Wh],
     DEFINE_FIELD ''total_imported_energy'' T_FixedValue (ObisId5 d 1 0 3 8 0) FixedField
       [Unit units_kvarh, Unit units_kvarh],
     DEFINE_FIELD ''total_exported_energy'' T_FixedValue (ObisId5 d 1 0 4 8 0) FixedField
       [Unit units_kvarh, Unit units_kvarh],
     DEFINE_FIELD ''electricity_tariff'' T_String (ObisId5 d 0 0 96 14 0) StringField
       [Len 4, Len 4],
     DEFINE_FIELD ''power_delivered'' T_FixedValue (ObisId5 d 1 0 1 7 0) FixedField
       [Unit units_kW, Unit units_W],
     DEFINE_FIELD ''power_returned'' T_FixedValue (ObisId5 d 1 0 2 7 0) FixedField
       [Unit units_kW, Unit units_W],
     DEFINE_FIELD ''electricity_threshold'' T_FixedValue (ObisId5 d 0 0 17 0 0) FixedField
       [Unit units_kW, Unit units_W],
     DEFINE_FIELD ''message_long'' T_String (ObisId5 d 0 0 96 13 0) StringField
       [Len 0, Len 2048],
     DEFINE_FIELD ''voltage_l1'' T_FixedValue (ObisId5 d 1 0 32 7 0) FixedField
       [Unit units_V, Unit units_mV],
     DEFINE_FIELD ''voltage_l2'' T_FixedValue (ObisId5 d 1 0 52 7 0) FixedField
       [Unit units_V, Unit units_mV],
     DEFINE_FIELD ''voltage_l3'' T_FixedValue (ObisId5 d 1 0 72 7 0) FixedField
       [Unit units_V, Unit units_mV],
     DEFINE_FIELD ''current_l1'' T_FixedValue (ObisId5 d 1 0 31 7 0) FixedField
       [Unit units_A, Unit units_mA],
     DEFINE_FIELD ''current_l2'' T_FixedValue (ObisId5 d 1 0 51 7 0) FixedField
       [Unit units_A, Unit units_mA],
     DEFINE_FIELD ''current_l3'' T_FixedValue (ObisId5 d 1 0 71 7 0) FixedField
       [Unit units_A, Unit units_mA],
     DEFINE_FIELD ''energy_combined_total'' T_FixedValue (ObisId5 d 1 0 15 8 0) FixedField
       [Unit units_kWh, Unit units_Wh],
     DEFINE_FIELD ''maximum_current_l1'' T_FixedValue (ObisId5 d 1 0 31 4 0) FixedField
       [Unit units_A, Unit units_mA],
     DEFINE_FIELD ''maximum_current_l2'' T_FixedValue (ObisId5 d 1 0 51 4 0) FixedField
       [Unit units_A, Unit units_mA],
     DEFINE_FIELD ''maximum_current_l3'' T_FixedValue (ObisId5 d 1 0 71 4 0) FixedField
       [Unit units_A, Unit units_mA],
     frequency d,
     DEFINE_FIELD ''power_factor'' T_String (ObisId5 d 1 0 13 7 0) RawField [],
     DEFINE_FIELD ''power_factor_l1'' T_String (ObisId5 d 1 0 33 7 0) RawField [],
     DEFINE_FIELD ''power_factor_l2'' T_String (ObisId5 d 1 0 53 7 0) RawField [],
     DEFINE_FIELD ''power_factor_l3'' T_String (ObisId5 d 1 0 73 7 0) RawField [],
     DEFINE_FIELD ''monthly_datas'' T_String (ObisId5 d 0 0 98 1 0) StringField
       [Len 0, Len 2048],
     DEFINE_FIELD ''COSEM_logical_device_name'' T_String (ObisId5 d 0 0 42 0 0) StringField
       [Len 0, Len 64],
     DEFINE_FIELD ''breaker_status'' T_String (ObisId5 d 0 0 96 50 68) StringField
       [Len 0, Len 2048] ]"

text \<open>The units a \<open>FixedField\<close> entry binds: the first of the entry's arguments is the
  template argument \<open>_unit\<close>, which \<open>unit()\<close> returns, and the second is \<open>_int_unit\<close>, which
  \<open>int_unit()\<close> returns. \<open>unit_of\<close> and \<open>int_unit_of\<close> read the label an entry passes for each;
  an argument the entry does not pass has no label.\<close>

definition unit_of :: "field_def \<Rightarrow> string option" where
  "unit_of e = (case field_args e of Unit u # _ \<Rightarrow> Some u | _ \<Rightarrow> None)"

definition int_unit_of :: "field_def \<Rightarrow> string option" where
  "int_unit_of e = (case field_args e of _ # Unit u # _ \<Rightarrow> Some u | _ \<Rightarrow> None)"

subsection \<open>The two encodings, in the words of the specification\<close>

text \<open>The number a string of decimal digits denotes.\<close>

definition decimal :: "string \<Rightarrow> nat" where
  "decimal ds = foldl (\<lambda>n c. n * 10 + digit_val c) 0 ds"

text \<open>Spec 4.4, float form: the payload has an integer part \<open>ip\<close>, at most 3 fraction digits
  \<open>fp\<close> after a point (or no point at all), and then the declared large unit.\<close>

definition is_float_form :: "string \<Rightarrow> string \<Rightarrow> bool" where
  "is_float_form unit p \<longleftrightarrow>
     (\<exists>ip fp. ip \<noteq> [] \<and> list_all is_digit ip \<and> list_all is_digit fp \<and> length fp \<le> 3
        \<and> (p = ip @ unit_suffix unit \<or> p = ip @ ''.'' @ fp @ unit_suffix unit))"

text \<open>Spec 4.4, integer form: the payload has 0 fraction digits and then the declared small
  unit.\<close>

definition is_int_form :: "string \<Rightarrow> string \<Rightarrow> bool" where
  "is_int_form int_unit p \<longleftrightarrow>
     (\<exists>ip. ip \<noteq> [] \<and> list_all is_digit ip \<and> p = ip @ unit_suffix int_unit)"

section \<open>Properties\<close>

subsection \<open>The scanners on well-formed tokens\<close>

lemma foldl_digits_value:
  "foldl (\<lambda>v c. v * 10 + of_nat (digit_val c)) (of_nat a :: 32 word) ds
     = of_nat (foldl (\<lambda>n c. n * 10 + digit_val c) a ds)"
proof (induction ds arbitrary: a)
  case Nil
  show ?case by simp
next
  case (Cons c cs)
  have "(of_nat a :: 32 word) * 10 + of_nat (digit_val c) = of_nat (a * 10 + digit_val c)"
    by simp
  then show ?case
    using Cons.IH [of "a * 10 + digit_val c"] by simp
qed

lemma digits_value_decimal: "digits_value ds = of_nat (decimal ds)"
  using foldl_digits_value [of 0 ds] by (simp add: digits_value_def decimal_def)

lemma foldl_decimal_shift:
  "foldl (\<lambda>n c. n * 10 + digit_val c) a ds = a * 10 ^ length ds + decimal ds"
  unfolding decimal_def
proof (induction ds arbitrary: a)
  case Nil show ?case by simp
next
  case (Cons c cs)
  show ?case
    using Cons.IH [of "a * 10 + digit_val c"] Cons.IH [of "digit_val c"]
    by (simp add: algebra_simps)
qed

lemma decimal_append: "decimal (a @ b) = decimal a * 10 ^ length b + decimal b"
  using foldl_decimal_shift [of "decimal a" b] by (simp add: decimal_def)

lemma parse_string_token:
  assumes "CHR '')'' \<notin> set s"
  shows "parse_string mn mx (token s @ rest)
           = (if length s < mn \<or> mx < length s then Failure InvalidLength (s @ '')'' @ rest)
              else Success s rest)"
proof -
  have "\<forall>x\<in>set s. x \<noteq> CHR '')''" using assms by auto
  then have "takeWhile (\<lambda>x. x \<noteq> CHR '')'') (s @ CHR '')'' # rest) = s"
    and "dropWhile (\<lambda>x. x \<noteq> CHR '')'') (s @ CHR '')'' # rest) = CHR '')'' # rest"
    by simp_all
  then show ?thesis
    by (simp add: parse_string_def token_def Let_def)
qed


lemma takeWhile_digits_stop:
  assumes "list_all is_digit ds" and "r = [] \<or> \<not> is_digit (hd r)"
  shows "takeWhile is_digit (ds @ r) = ds" and "dropWhile is_digit (ds @ r) = r"
proof -
  have a: "\<forall>x\<in>set ds. is_digit x" using assms(1) by (simp add: list_all_iff)
  have b: "takeWhile is_digit r = []" "dropWhile is_digit r = r"
    using assms(2) by (cases r; simp)+
  show "takeWhile is_digit (ds @ r) = ds" using a b by simp
  show "dropWhile is_digit (ds @ r) = r" using a b by simp
qed

lemma check_unit_accepts:
  "check_unit unit v (unit_suffix unit @ CHR '')'' # rest) = Success v rest"
  by (simp add: check_unit_def)

lemma NumParser_parse_fraction:
  assumes "ip \<noteq> []" and "list_all is_digit ip" and "list_all is_digit fp"
    and "length fp \<le> md" and "0 < md"
  shows "NumParser_parse md unit (token (ip @ ''.'' @ fp @ unit_suffix unit) @ rest)
           = Success (of_nat (decimal ip * 10 ^ md + decimal fp * 10 ^ (md - length fp))) rest"
proof -
  let ?tail = "unit_suffix unit @ '')'' @ rest"
  have nd: "?tail = [] \<or> \<not> is_digit (hd ?tail)"
    by (simp add: unit_suffix_def is_digit_def)
  have ip: "takeWhile is_digit (ip @ CHR ''.'' # fp @ ?tail) = ip"
    "dropWhile is_digit (ip @ CHR ''.'' # fp @ ?tail) = CHR ''.'' # fp @ ?tail"
    using takeWhile_digits_stop [OF assms(2), of "CHR ''.'' # fp @ ?tail"]
    by (simp_all add: is_digit_def)
  have tk: "take md (fp @ ?tail) = fp @ take (md - length fp) ?tail"
    using assms(4) by simp
  have nd': "take (md - length fp) ?tail = [] \<or> \<not> is_digit (hd (take (md - length fp) ?tail))"
    by (cases "md - length fp") (simp_all add: unit_suffix_def is_digit_def)
  have fp: "takeWhile is_digit (take md (fp @ ?tail)) = fp"
    using takeWhile_digits_stop(1) [OF assms(3) nd'] tk by simp
  have v: "digits_value (ip @ fp) * 10 ^ (md - length fp)
             = (of_nat (decimal ip * 10 ^ md + decimal fp * 10 ^ (md - length fp)) :: 32 word)"
  proof -
    have "10 ^ md = (10::nat) ^ length fp * 10 ^ (md - length fp)"
      using assms(4) by (simp add: power_add [symmetric])
    then have "decimal (ip @ fp) * 10 ^ (md - length fp)
                 = decimal ip * 10 ^ md + decimal fp * 10 ^ (md - length fp)"
      by (simp add: decimal_append algebra_simps)
    moreover have "digits_value (ip @ fp) * 10 ^ (md - length fp)
                 = (of_nat (decimal (ip @ fp) * 10 ^ (md - length fp)) :: 32 word)"
      by (simp add: digits_value_decimal)
    ultimately show ?thesis by (simp only:)
  qed
  show ?thesis
    using assms(1,5) ip fp v
    by (simp add: NumParser_parse_def token_def Let_def check_unit_accepts)
qed

lemma NumParser_parse_integer:
  assumes "ip \<noteq> []" and "list_all is_digit ip"
  shows "NumParser_parse md unit (token (ip @ unit_suffix unit) @ rest)
           = Success (of_nat (decimal ip * 10 ^ md)) rest"
proof -
  let ?tail = "unit_suffix unit @ '')'' @ rest"
  have nd: "?tail = [] \<or> \<not> is_digit (hd ?tail)"
    by (simp add: unit_suffix_def is_digit_def)
  have ip: "takeWhile is_digit (ip @ ?tail) = ip" "dropWhile is_digit (ip @ ?tail) = ?tail"
    using takeWhile_digits_stop [OF assms(2) nd] by simp_all
  have hd: "hd ?tail \<noteq> CHR ''.''"
    by (simp add: unit_suffix_def)
  have v: "digits_value ip * 10 ^ md = (of_nat (decimal ip * 10 ^ md) :: 32 word)"
    by (simp add: digits_value_decimal)
  show ?thesis
    using assms(1) ip hd v
    by (simp add: NumParser_parse_def token_def Let_def check_unit_accepts)
qed


lemma check_unit_SuccessD:
  assumes "check_unit unit v r = Success w m"
  shows "r = unit_suffix unit @ CHR '')'' # m \<and> w = v"
proof -
  let ?e = "unit_suffix unit @ '')''"
  from assms have t: "take (length ?e) r = ?e" and m: "m = drop (length ?e) r" and w: "w = v"
    by (auto simp: check_unit_def Let_def split: if_splits)
  have "take (length ?e) r @ drop (length ?e) r = r" by (rule append_take_drop_id)
  then have "?e @ m = r" by (simp only: t m)
  then show ?thesis using w by simp
qed

lemma takeWhile_take_prefix:
  "takeWhile P (take n t) @ drop (length (takeWhile P (take n t))) t = t"
proof -
  let ?fp = "takeWhile P (take n t)"
  have "?fp = take (length ?fp) (take n t)" by (rule takeWhile_eq_take)
  moreover have "length ?fp \<le> n"
    using length_takeWhile_le [of P "take n t"] by simp
  ultimately have "?fp = take (length ?fp) t" by (simp add: min_def)
  then have "?fp @ drop (length ?fp) t = take (length ?fp) t @ drop (length ?fp) t" by simp
  then show ?thesis by simp
qed

lemma NumParser_parse_SuccessD:
  assumes "NumParser_parse md unit str = Success v m"
  shows "\<exists>ip fp. ip \<noteq> [] \<and> list_all is_digit ip \<and> list_all is_digit fp \<and> length fp \<le> md
           \<and> (str = token (ip @ unit_suffix unit) @ m
                \<or> 0 < md \<and> str = token (ip @ ''.'' @ fp @ unit_suffix unit) @ m)"
proof -
  from assms obtain cs where str: "str = CHR ''('' # cs"
    by (auto simp: NumParser_parse_def split: list.splits if_splits)
  define ip where "ip = takeWhile is_digit cs"
  define r1 where "r1 = dropWhile is_digit cs"
  define has_frac where "has_frac \<longleftrightarrow> 0 < md \<and> r1 \<noteq> [] \<and> hd r1 = CHR ''.''"
  define fp where "fp = (if has_frac then takeWhile is_digit (take md (tl r1)) else [])"
  define r2 where "r2 = (if has_frac then drop (length fp) (tl r1) else r1)"
  have cs: "cs = ip @ r1" by (simp add: ip_def r1_def)
  have dip: "list_all is_digit ip"
    by (auto simp: ip_def list_all_iff dest: set_takeWhileD)
  have dfp: "list_all is_digit fp"
    by (auto simp: fp_def list_all_iff dest: set_takeWhileD)
  have lfp: "length fp \<le> md"
    using length_takeWhile_le [of is_digit "take md (tl r1)"] by (simp add: fp_def)
  from assms have ne: "ip \<noteq> []"
    and cu: "check_unit unit (digits_value (ip @ fp) * 10 ^ (md - length fp)) r2 = Success v m"
    by (auto simp: NumParser_parse_def str Let_def ip_def r1_def has_frac_def fp_def r2_def
        split: if_splits)
  from check_unit_SuccessD [OF cu] have r2: "r2 = unit_suffix unit @ CHR '')'' # m" by simp
  show ?thesis
  proof (cases has_frac)
    case True
    then have "r1 = CHR ''.'' # tl r1" by (cases r1) (auto simp: has_frac_def)
    moreover have "tl r1 = fp @ r2"
      using True takeWhile_take_prefix [of is_digit md "tl r1"] by (simp add: fp_def r2_def)
    ultimately have "str = token (ip @ ''.'' @ fp @ unit_suffix unit) @ m"
      using str cs r2 by (simp add: token_def)
    moreover have "0 < md" using True by (simp add: has_frac_def)
    ultimately show ?thesis using ne dip dfp lfp by blast
  next
    case False
    then have "str = token (ip @ unit_suffix unit) @ m"
      using str cs r2 by (simp add: token_def r2_def)
    then show ?thesis using ne dip dfp lfp by blast
  qed
qed

lemma unit_suffix_inj: "unit_suffix a = unit_suffix b \<Longrightarrow> a = b"
  by (auto simp: unit_suffix_def split: if_splits)

lemma check_unit_other_unit:
  assumes "unit \<noteq> int_unit" and "CHR '')'' \<notin> set int_unit"
  shows "\<exists>k c. check_unit unit v (unit_suffix int_unit @ '')'') = Failure k c"
proof -
  let ?e = "unit_suffix unit @ '')''"
  let ?r = "unit_suffix int_unit @ '')''"
  have "take (length ?e) ?r \<noteq> ?e"
  proof
    assume t: "take (length ?e) ?r = ?e"
    have "?r = take (length ?e) ?r @ drop (length ?e) ?r" by (simp only: append_take_drop_id)
    then obtain d where d: "?r = ?e @ d" using t by metis
    show False
    proof (cases "d = []")
      case True
      then show ?thesis using d assms(1) unit_suffix_inj by auto
    next
      case False
      then have "d = butlast d @ [last d]" by simp
      then have "unit_suffix int_unit @ '')'' = (unit_suffix unit @ '')'' @ butlast d) @ [last d]"
        using d by (metis append_assoc)
      then have "unit_suffix int_unit = unit_suffix unit @ '')'' @ butlast d"
        by (simp only: append1_eq_conv)
      then have "CHR '')'' \<in> set (unit_suffix int_unit)" by simp
      then show ?thesis using assms(2) by (simp add: unit_suffix_def split: if_splits)
    qed
  qed
  then show ?thesis by (simp add: check_unit_def Let_def)
qed

lemma NumParser_parse_other_unit:
  assumes "ip \<noteq> []" and "list_all is_digit ip"
    and "unit \<noteq> int_unit" and "CHR '')'' \<notin> set int_unit"
  shows "\<exists>k c. NumParser_parse md unit (token (ip @ unit_suffix int_unit)) = Failure k c"
proof -
  let ?tail = "unit_suffix int_unit @ '')''"
  have nd: "?tail = [] \<or> \<not> is_digit (hd ?tail)"
    by (simp add: unit_suffix_def is_digit_def)
  have ip: "takeWhile is_digit (ip @ ?tail) = ip" "dropWhile is_digit (ip @ ?tail) = ?tail"
    using takeWhile_digits_stop [OF assms(2) nd] by simp_all
  have hd: "hd ?tail \<noteq> CHR ''.''"
    by (simp add: unit_suffix_def)
  show ?thesis
    using assms(1) ip hd check_unit_other_unit [OF assms(3,4)]
    by (simp add: NumParser_parse_def token_def Let_def)
qed

lemma FixedField_parse_float:
  assumes "np 3 unit str = Success v m"
  shows "FixedField_parse np unit int_unit str f
           = (Success () m, f\<lparr>val := (val f)\<lparr>raw_value := v\<rparr>\<rparr>)"
  using assms by (simp add: FixedField_parse_def)

lemma FixedField_parse_int:
  assumes "np 3 unit str = Failure k c" and "np 0 int_unit str = Success v m"
  shows "FixedField_parse np unit int_unit str f
           = (Success () m, f\<lparr>val := (val f)\<lparr>raw_value := v\<rparr>\<rparr>)"
  using assms by (simp add: FixedField_parse_def)

lemma FixedField_parse_success_iff:
  "(\<exists>m g. FixedField_parse np unit int_unit str f = (Success () m, g))
     \<longleftrightarrow> (\<exists>v m. np 3 unit str = Success v m) \<or> (\<exists>v m. np 0 int_unit str = Success v m)"
  by (auto simp: FixedField_parse_def Let_def split: ParseResult.splits)

lemma FixedField_accepts_forms:
  "(\<exists>m g. FixedField_parse NumParser_parse unit int_unit str f = (Success () m, g))
     \<longleftrightarrow> (\<exists>p m. str = token p @ m \<and> (is_float_form unit p \<or> is_int_form int_unit p))"
proof
  assume "\<exists>m g. FixedField_parse NumParser_parse unit int_unit str f = (Success () m, g)"
  then consider (fl) v m where "NumParser_parse 3 unit str = Success v m"
    | (it) v m where "NumParser_parse 0 int_unit str = Success v m"
    using FixedField_parse_success_iff [of NumParser_parse unit int_unit str f] by blast
  then show "\<exists>p m. str = token p @ m \<and> (is_float_form unit p \<or> is_int_form int_unit p)"
  proof cases
    case fl
    from NumParser_parse_SuccessD [OF fl] show ?thesis
      unfolding is_float_form_def by blast
  next
    case it
    from NumParser_parse_SuccessD [OF it] show ?thesis
      unfolding is_int_form_def by blast
  qed
next
  assume "\<exists>p m. str = token p @ m \<and> (is_float_form unit p \<or> is_int_form int_unit p)"
  then obtain p m where str: "str = token p @ m"
    and p: "is_float_form unit p \<or> is_int_form int_unit p" by blast
  from p have "(\<exists>v. NumParser_parse 3 unit str = Success v m)
                 \<or> (\<exists>v. NumParser_parse 0 int_unit str = Success v m)"
  proof
    assume "is_float_form unit p"
    then show ?thesis
      unfolding is_float_form_def str
      using NumParser_parse_integer [of _ 3 unit m] NumParser_parse_fraction [of _ _ 3 unit m]
      by fastforce
  next
    assume "is_int_form int_unit p"
    then show ?thesis
      unfolding is_int_form_def str
      using NumParser_parse_integer [of _ 0 int_unit m] by fastforce
  qed
  then show "\<exists>m g. FixedField_parse NumParser_parse unit int_unit str f = (Success () m, g)"
    using FixedField_parse_success_iff [of NumParser_parse unit int_unit str f] by blast
qed

lemma FixedField_kWh_example:
  "FixedField_parse NumParser_parse ''kWh'' ''Wh'' (token ''000441.879*kWh'') f
     = (Success () [], f\<lparr>val := (val f)\<lparr>raw_value := 441879\<rparr>\<rparr>)"
  by (simp add: FixedField_parse_def NumParser_parse_def token_def is_digit_def
      check_unit_def unit_suffix_def digits_value_def digit_val_def)

lemma FixedField_Wh_example:
  "FixedField_parse NumParser_parse ''kWh'' ''Wh'' (token ''000441879*Wh'') f
     = (Success () [], f\<lparr>val := (val f)\<lparr>raw_value := 441879\<rparr>\<rparr>)"
  by (simp add: FixedField_parse_def NumParser_parse_def token_def is_digit_def
      check_unit_def unit_suffix_def digits_value_def digit_val_def)

subsection \<open>FixedField: the error of a double failure\<close>

text \<open>
  C2. Whenever the float-form attempt and the integer-form attempt both fail on a span,
  \<open>FixedField::parse\<close> returns the failure of the float-form attempt, its error kind and
  its failing sub-span, whatever the integer-form attempt reported, and stores nothing.
  This holds for every number scanner.
\<close>

theorem FixedField_double_failure:
  assumes "np 3 unit str = Failure k c"
    and "np 0 int_unit str = Failure k' c'"
  shows "FixedField_parse np unit int_unit str f = (Failure k c, f)"
  using assms by (simp add: FixedField_parse_def)

theorem FixedField_double_failure_witness:
  "NumParser_parse 3 ''kWh'' (token ''441.879*MWh'') = Failure UnitMismatch ''*MWh)''
   \<and> NumParser_parse 0 ''Wh'' (token ''441.879*MWh'') = Failure InvalidFormat ''.879*MWh)''
   \<and> FixedField_parse NumParser_parse ''kWh'' ''Wh'' (token ''441.879*MWh'')
        (new_field \<lparr>raw_value = 7\<rparr>)
       = (Failure UnitMismatch ''*MWh)'', new_field \<lparr>raw_value = 7\<rparr>)"
proof -
  have a: "NumParser_parse 3 ''kWh'' (token ''441.879*MWh'') = Failure UnitMismatch ''*MWh)''"
    by (simp add: NumParser_parse_def token_def is_digit_def check_unit_def unit_suffix_def)
  have b: "NumParser_parse 0 ''Wh'' (token ''441.879*MWh'') = Failure InvalidFormat ''.879*MWh)''"
    by (simp add: NumParser_parse_def token_def is_digit_def check_unit_def unit_suffix_def)
  show ?thesis
    using a b
      FixedField_double_failure [where np = NumParser_parse and unit = "''kWh''"
        and int_unit = "''Wh''" and f = "new_field \<lparr>raw_value = 7\<rparr>", OF a b]
    by simp
qed

subsection \<open>FixedField: the two encodings\<close>

text \<open>
  C1, as the code has it. \<open>FixedField::parse\<close> succeeds on exactly the spans that begin with a
  token in float form (at most 3 fraction digits, then the declared large unit) or in integer
  form (0 fraction digits, then the declared small unit). On a token in float form the stored
  \<open>uint32_t\<close> is the decimal value times 1000. On a token in integer form the stored value
  is the literal value, provided the small unit differs from the large one, so that the
  float-form attempt, which is tried first, rejects the token. For the units kWh and Wh,
  \<open>(000441.879*kWh)\<close> and \<open>(000441879*Wh)\<close> both store 441879.
\<close>

theorem FixedField_parse_encodings:
  "((\<exists>m g. FixedField_parse NumParser_parse unit int_unit str f = (Success () m, g))
      \<longleftrightarrow> (\<exists>p m. str = token p @ m \<and> (is_float_form unit p \<or> is_int_form int_unit p)))
   \<and> (\<forall>ip fp. ip \<noteq> [] \<and> list_all is_digit ip \<and> list_all is_digit fp \<and> length fp \<le> 3 \<longrightarrow>
         FixedField_parse NumParser_parse unit int_unit
             (token (ip @ ''.'' @ fp @ unit_suffix unit)) f
           = (Success () [], f\<lparr>val := (val f)\<lparr>raw_value :=
                of_nat (decimal ip * 1000 + decimal fp * 10 ^ (3 - length fp))\<rparr>\<rparr>)
         \<and> FixedField_parse NumParser_parse unit int_unit (token (ip @ unit_suffix unit)) f
           = (Success () [], f\<lparr>val := (val f)\<lparr>raw_value := of_nat (decimal ip * 1000)\<rparr>\<rparr>)
         \<and> (unit \<noteq> int_unit \<and> CHR '')'' \<notin> set int_unit \<longrightarrow>
              FixedField_parse NumParser_parse unit int_unit (token (ip @ unit_suffix int_unit)) f
                = (Success () [], f\<lparr>val := (val f)\<lparr>raw_value := of_nat (decimal ip)\<rparr>\<rparr>)))
   \<and> FixedField_parse NumParser_parse ''kWh'' ''Wh'' (token ''000441.879*kWh'') f
       = (Success () [], f\<lparr>val := (val f)\<lparr>raw_value := 441879\<rparr>\<rparr>)
   \<and> FixedField_parse NumParser_parse ''kWh'' ''Wh'' (token ''000441879*Wh'') f
       = (Success () [], f\<lparr>val := (val f)\<lparr>raw_value := 441879\<rparr>\<rparr>)"
proof (intro conjI allI impI)
  show "(\<exists>m g. FixedField_parse NumParser_parse unit int_unit str f = (Success () m, g))
      \<longleftrightarrow> (\<exists>p m. str = token p @ m \<and> (is_float_form unit p \<or> is_int_form int_unit p))"
    by (rule FixedField_accepts_forms)
next
  fix ip fp
  assume h: "ip \<noteq> [] \<and> list_all is_digit ip \<and> list_all is_digit fp \<and> length fp \<le> 3"
  have "NumParser_parse 3 unit (token (ip @ ''.'' @ fp @ unit_suffix unit) @ [])
          = Success (of_nat (decimal ip * 10 ^ 3 + decimal fp * 10 ^ (3 - length fp))) []"
    using h by (intro NumParser_parse_fraction) simp_all
  then show "FixedField_parse NumParser_parse unit int_unit
             (token (ip @ ''.'' @ fp @ unit_suffix unit)) f
           = (Success () [], f\<lparr>val := (val f)\<lparr>raw_value :=
                of_nat (decimal ip * 1000 + decimal fp * 10 ^ (3 - length fp))\<rparr>\<rparr>)"
    using FixedField_parse_float [of NumParser_parse unit _ _ _ int_unit f] by simp
next
  fix ip fp
  assume h: "ip \<noteq> [] \<and> list_all is_digit ip \<and> list_all is_digit fp \<and> length fp \<le> 3"
  have "NumParser_parse 3 unit (token (ip @ unit_suffix unit) @ [])
          = Success (of_nat (decimal ip * 10 ^ 3)) []"
    using h by (intro NumParser_parse_integer) simp_all
  then show "FixedField_parse NumParser_parse unit int_unit (token (ip @ unit_suffix unit)) f
           = (Success () [], f\<lparr>val := (val f)\<lparr>raw_value := of_nat (decimal ip * 1000)\<rparr>\<rparr>)"
    using FixedField_parse_float [of NumParser_parse unit _ _ _ int_unit f] by simp
next
  fix ip fp
  assume h: "ip \<noteq> [] \<and> list_all is_digit ip \<and> list_all is_digit fp \<and> length fp \<le> 3"
    and u: "unit \<noteq> int_unit \<and> CHR '')'' \<notin> set int_unit"
  obtain k c where fl: "NumParser_parse 3 unit (token (ip @ unit_suffix int_unit)) = Failure k c"
    using NumParser_parse_other_unit [of ip unit int_unit 3] h u by blast
  have "NumParser_parse 0 int_unit (token (ip @ unit_suffix int_unit) @ [])
          = Success (of_nat (decimal ip * 10 ^ 0)) []"
    using h by (intro NumParser_parse_integer) simp_all
  then have "NumParser_parse 0 int_unit (token (ip @ unit_suffix int_unit))
          = Success (of_nat (decimal ip)) []" by simp
  from FixedField_parse_int [where np = NumParser_parse, OF fl this]
  show "FixedField_parse NumParser_parse unit int_unit (token (ip @ unit_suffix int_unit)) f
          = (Success () [], f\<lparr>val := (val f)\<lparr>raw_value := of_nat (decimal ip)\<rparr>\<rparr>)" .
next
  show "FixedField_parse NumParser_parse ''kWh'' ''Wh'' (token ''000441.879*kWh'') f
       = (Success () [], f\<lparr>val := (val f)\<lparr>raw_value := 441879\<rparr>\<rparr>)"
    by (rule FixedField_kWh_example)
next
  show "FixedField_parse NumParser_parse ''kWh'' ''Wh'' (token ''000441879*Wh'') f
       = (Success () [], f\<lparr>val := (val f)\<lparr>raw_value := 441879\<rparr>\<rparr>)"
    by (rule FixedField_Wh_example)
qed

theorem FixedField_parse_encodings_witness:
  "FixedField_parse NumParser_parse ''V'' ''mV'' (token ''230.5*V'') (new_field \<lparr>raw_value = 0\<rparr>)
     = (Success () [], new_field \<lparr>raw_value = 230500\<rparr>)
   \<and> FixedField_parse NumParser_parse ''V'' ''mV'' (token ''230*V'') (new_field \<lparr>raw_value = 0\<rparr>)
     = (Success () [], new_field \<lparr>raw_value = 230000\<rparr>)
   \<and> FixedField_parse NumParser_parse ''V'' ''mV'' (token ''230500*mV'') (new_field \<lparr>raw_value = 0\<rparr>)
     = (Success () [], new_field \<lparr>raw_value = 230500\<rparr>)"
  using FixedField_parse_encodings [of "''V''" "''mV''" "[]" "new_field \<lparr>raw_value = 0\<rparr>",
      THEN conjunct2, THEN conjunct1, rule_format, of "''230''" "''5''"]
    FixedField_parse_encodings [of "''V''" "''mV''" "[]" "new_field \<lparr>raw_value = 0\<rparr>",
      THEN conjunct2, THEN conjunct1, rule_format, of "''230500''" "[]"]
  by (simp add: is_digit_def decimal_def digit_val_def unit_suffix_def new_field_def)

text \<open>The claim C1 as stated, that an integer-form token with the declared small unit is
  stored unscaled by every \<open>FixedField\<close>, fails where both units are the same, as for the
  catalog entries \<open>total_imported_energy\<close> and \<open>total_exported_energy\<close> (kvarh, kvarh): the
  token \<open>(5*kvarh)\<close> is taken by the float-form attempt and stored as 5000.\<close>

theorem FixedField_same_unit_scales:
  "is_int_form ''kvarh'' ''5*kvarh''
   \<and> FixedField_parse NumParser_parse ''kvarh'' ''kvarh'' (token ''5*kvarh'')
       (new_field \<lparr>raw_value = 0\<rparr>)
     = (Success () [], new_field \<lparr>raw_value = 5000\<rparr>)
   \<and> (5000 :: 32 word) \<noteq> of_nat (decimal ''5'')"
proof -
  have "''5'' \<noteq> [] \<and> list_all is_digit ''5'' \<and> ''5*kvarh'' = ''5'' @ unit_suffix ''kvarh''"
    by (simp add: is_digit_def unit_suffix_def)
  then have "is_int_form ''kvarh'' ''5*kvarh''"
    unfolding is_int_form_def by (rule exI [where x = "''5''"])
  then show ?thesis
    by (simp add: FixedField_parse_def NumParser_parse_def token_def is_digit_def
        check_unit_def unit_suffix_def digits_value_def digit_val_def new_field_def decimal_def)
qed

subsection \<open>StringField\<close>

text \<open>
  C5, as the code has it. The token of a text is the text between parentheses and ends at the
  first closing parenthesis. For a text \<open>s\<close> without a closing parenthesis and bounds
  \<open>minlen\<close>, \<open>maxlen\<close>: if \<open>minlen \<le> length s \<le> maxlen\<close>, parsing the token of \<open>s\<close> succeeds
  and stores \<open>s\<close> unchanged; if the length of \<open>s\<close> is \<open>minlen - 1\<close> or \<open>maxlen + 1\<close>, parsing
  fails with InvalidLength and the field is the one before the call.
\<close>

theorem StringField_round_trip:
  assumes "CHR '')'' \<notin> set s"
  shows "(minlen \<le> length s \<and> length s \<le> maxlen \<longrightarrow>
            StringField_parse parse_string minlen maxlen (token s) f
              = (Success () [], f\<lparr>val := s\<rparr>))
       \<and> (length s + 1 = minlen \<or> length s = maxlen + 1 \<longrightarrow>
            StringField_parse parse_string minlen maxlen (token s) f
              = (Failure InvalidLength (s @ '')''), f))"
  using parse_string_token [OF assms, of minlen maxlen "[]"]
  by (auto simp: StringField_parse_def)

theorem StringField_round_trip_witness:
  "StringField_parse parse_string 4 4 (token ''0002'') (new_field ''old'')
     = (Success () [], new_field ''0002'')
   \<and> StringField_parse parse_string 4 4 (token ''002'') (new_field ''old'')
     = (Failure InvalidLength ''002)'', new_field ''old'')
   \<and> StringField_parse parse_string 4 4 (token ''00002'') (new_field ''old'')
     = (Failure InvalidLength ''00002)'', new_field ''old'')"
  using StringField_round_trip [of "''0002''" 4 4 "new_field ''old''"]
    StringField_round_trip [of "''002''" 4 4 "new_field ''old''"]
    StringField_round_trip [of "''00002''" 4 4 "new_field ''old''"]
  by (simp add: new_field_def)

text \<open>The claim C5 as stated, for every string \<open>s\<close> within the bounds, fails on a text with a
  closing parenthesis in it: \<open>a)b\<close> has length 3, and parsing its token with the bounds 3..3
  fails with InvalidLength, while with the bounds 0..96 it succeeds and stores \<open>a\<close>.\<close>

theorem StringField_stops_at_parenthesis:
  "length ''a)b'' = 3
   \<and> StringField_parse parse_string 3 3 (token ''a)b'') (new_field ''old'')
       = (Failure InvalidLength ''a)b)'', new_field ''old'')
   \<and> StringField_parse parse_string 0 96 (token ''a)b'') (new_field ''old'')
       = (Success () ''b)'', new_field ''a'')
   \<and> ''a'' \<noteq> ''a)b''"
  by (simp add: StringField_parse_def parse_string_def token_def new_field_def)

subsection \<open>TimestampedFixedField: what a call writes\<close>

text \<open>
  C4. If the scan of the 13-character timestamp fails, \<open>TimestampedFixedField::parse\<close>
  returns the failure of that scan as it is, and the field is the one before the call:
  neither the timestamp nor the numeric value is written. This holds for all scanners.
\<close>

theorem TimestampedFixedField_timestamp_failure:
  assumes "ps 13 13 str = Failure k c"
  shows "TimestampedFixedField_parse ps np unit int_unit str f = (Failure k c, f)"
  using assms by (simp add: TimestampedFixedField_parse_def)

theorem TimestampedFixedField_timestamp_failure_witness:
  "parse_string 13 13 ''(15011718W)(00473.789*m3)'' = Failure InvalidLength ''15011718W)(00473.789*m3)''
   \<and> TimestampedFixedField_parse parse_string NumParser_parse ''m3'' ''dm3''
        ''(15011718W)(00473.789*m3)'' (new_field \<lparr>raw_value = 7, timestamp = ''old''\<rparr>)
       = (Failure InvalidLength ''15011718W)(00473.789*m3)'',
          new_field \<lparr>raw_value = 7, timestamp = ''old''\<rparr>)"
proof -
  have a: "parse_string 13 13 ''(15011718W)(00473.789*m3)''
             = Failure InvalidLength ''15011718W)(00473.789*m3)''"
    by (simp add: parse_string_def)
  show ?thesis
    using a
      TimestampedFixedField_timestamp_failure [where ps = parse_string and np = NumParser_parse
        and unit = "''m3''" and int_unit = "''dm3''"
        and f = "new_field \<lparr>raw_value = 7, timestamp = ''old''\<rparr>", OF a]
    by simp
qed

text \<open>
  C3, as the code has it. A call writes nothing when the timestamp scan fails, and writes the
  timestamp and the numeric value when both stages succeed. When the timestamp scan succeeds
  and the numeric stage fails, the call returns the failure of the numeric stage, has written
  the timestamp and has left the numeric value as it was. This holds for all scanners.
\<close>

theorem TimestampedFixedField_parse_writes:
  "(\<forall>k c. ps 13 13 str = Failure k c \<longrightarrow>
      TimestampedFixedField_parse ps np unit int_unit str f = (Failure k c, f))
   \<and> (\<forall>ts n k c k' c'.
        ps 13 13 str = Success ts n \<and> np 3 unit n = Failure k c
          \<and> np 0 int_unit n = Failure k' c' \<longrightarrow>
        TimestampedFixedField_parse ps np unit int_unit str f
          = (Failure k c, f\<lparr>val := (val f)\<lparr>timestamp := ts\<rparr>\<rparr>))
   \<and> (\<forall>ts n v m.
        ps 13 13 str = Success ts n \<and> np 3 unit n = Success v m \<longrightarrow>
        TimestampedFixedField_parse ps np unit int_unit str f
          = (Success () m, f\<lparr>val := (val f)\<lparr>timestamp := ts, raw_value := v\<rparr>\<rparr>))
   \<and> (\<forall>ts n k c v m.
        ps 13 13 str = Success ts n \<and> np 3 unit n = Failure k c
          \<and> np 0 int_unit n = Success v m \<longrightarrow>
        TimestampedFixedField_parse ps np unit int_unit str f
          = (Success () m, f\<lparr>val := (val f)\<lparr>timestamp := ts, raw_value := v\<rparr>\<rparr>))"
  by (simp add: TimestampedFixedField_parse_def FixedField_parse_def)

theorem TimestampedFixedField_parse_writes_witness:
  "TimestampedFixedField_parse parse_string NumParser_parse ''m3'' ''dm3''
       (token ''15011718W'' @ token ''00473.789*m3'')
       (new_field \<lparr>raw_value = 7, timestamp = ''old''\<rparr>)
     = (Failure InvalidLength ''15011718W)(00473.789*m3)'',
        new_field \<lparr>raw_value = 7, timestamp = ''old''\<rparr>)
   \<and> TimestampedFixedField_parse parse_string NumParser_parse ''m3'' ''dm3''
       (token ''150117180000W'' @ token ''00473.789*kWh'')
       (new_field \<lparr>raw_value = 7, timestamp = ''old''\<rparr>)
     = (Failure UnitMismatch ''*kWh)'',
        new_field \<lparr>raw_value = 7, timestamp = ''150117180000W''\<rparr>)
   \<and> TimestampedFixedField_parse parse_string NumParser_parse ''m3'' ''dm3''
       (token ''150117180000W'' @ token ''00473.789*m3'')
       (new_field \<lparr>raw_value = 7, timestamp = ''old''\<rparr>)
     = (Success () [], new_field \<lparr>raw_value = 473789, timestamp = ''150117180000W''\<rparr>)
   \<and> TimestampedFixedField_parse parse_string NumParser_parse ''m3'' ''dm3''
       (token ''150117180000W'' @ token ''00473789*dm3'')
       (new_field \<lparr>raw_value = 7, timestamp = ''old''\<rparr>)
     = (Success () [], new_field \<lparr>raw_value = 473789, timestamp = ''150117180000W''\<rparr>)"
proof -
  let ?f = "new_field \<lparr>raw_value = 7 :: 32 word, timestamp = ''old''\<rparr>"
  have s1: "parse_string 13 13 (token ''15011718W'' @ token ''00473.789*m3'')
              = Failure InvalidLength ''15011718W)(00473.789*m3)''"
    by (simp add: parse_string_def token_def)
  have s2: "parse_string 13 13 (token ''150117180000W'' @ token ''00473.789*kWh'')
              = Success ''150117180000W'' (token ''00473.789*kWh'')"
    and s3: "parse_string 13 13 (token ''150117180000W'' @ token ''00473.789*m3'')
              = Success ''150117180000W'' (token ''00473.789*m3'')"
    and s4: "parse_string 13 13 (token ''150117180000W'' @ token ''00473789*dm3'')
              = Success ''150117180000W'' (token ''00473789*dm3'')"
    by (simp_all add: parse_string_def token_def)
  have n2: "NumParser_parse 3 ''m3'' (token ''00473.789*kWh'') = Failure UnitMismatch ''*kWh)''"
    and n2': "NumParser_parse 0 ''dm3'' (token ''00473.789*kWh'')
                = Failure InvalidFormat ''.789*kWh)''"
    and n3: "NumParser_parse 3 ''m3'' (token ''00473.789*m3'') = Success 473789 []"
    and n4: "NumParser_parse 3 ''m3'' (token ''00473789*dm3'') = Failure UnitMismatch ''*dm3)''"
    and n4': "NumParser_parse 0 ''dm3'' (token ''00473789*dm3'') = Success 473789 []"
    by (simp_all add: NumParser_parse_def token_def is_digit_def check_unit_def
        unit_suffix_def digits_value_def digit_val_def)
  note w = TimestampedFixedField_parse_writes [where ps = parse_string
      and np = NumParser_parse and unit = "''m3''" and int_unit = "''dm3''" and f = ?f]
  have "TimestampedFixedField_parse parse_string NumParser_parse ''m3'' ''dm3''
          (token ''15011718W'' @ token ''00473.789*m3'') ?f
          = (Failure InvalidLength ''15011718W)(00473.789*m3)'', ?f)"
    using w [THEN conjunct1] s1 by blast
  moreover have "TimestampedFixedField_parse parse_string NumParser_parse ''m3'' ''dm3''
          (token ''150117180000W'' @ token ''00473.789*kWh'') ?f
          = (Failure UnitMismatch ''*kWh)'', ?f\<lparr>val := (val ?f)\<lparr>timestamp := ''150117180000W''\<rparr>\<rparr>)"
    using w [THEN conjunct2, THEN conjunct1] s2 n2 n2' by blast
  moreover have "TimestampedFixedField_parse parse_string NumParser_parse ''m3'' ''dm3''
          (token ''150117180000W'' @ token ''00473.789*m3'') ?f
          = (Success () [], ?f\<lparr>val := (val ?f)\<lparr>timestamp := ''150117180000W'',
               raw_value := 473789\<rparr>\<rparr>)"
    using w [THEN conjunct2, THEN conjunct2, THEN conjunct1] s3 n3 by blast
  moreover have "TimestampedFixedField_parse parse_string NumParser_parse ''m3'' ''dm3''
          (token ''150117180000W'' @ token ''00473789*dm3'') ?f
          = (Success () [], ?f\<lparr>val := (val ?f)\<lparr>timestamp := ''150117180000W'',
               raw_value := 473789\<rparr>\<rparr>)"
    using w [THEN conjunct2, THEN conjunct2, THEN conjunct2] s4 n4 n4' by blast
  ultimately show ?thesis by (simp add: new_field_def)
qed

text \<open>The claim C3 as stated, that a failing call leaves the slot as it was, fails on a valid
  timestamp followed by a number with a foreign unit: the call fails and the slot holds the
  new timestamp.\<close>

theorem TimestampedFixedField_partial_write:
  "TimestampedFixedField_parse parse_string NumParser_parse ''m3'' ''dm3''
       (token ''150117180000W'' @ token ''00473.789*kWh'')
       (new_field \<lparr>raw_value = 7, timestamp = ''old''\<rparr>)
     = (Failure UnitMismatch ''*kWh)'', new_field \<lparr>raw_value = 7, timestamp = ''150117180000W''\<rparr>)
   \<and> new_field \<lparr>raw_value = 7, timestamp = ''150117180000W''\<rparr>
       \<noteq> new_field \<lparr>raw_value = 7 :: 32 word, timestamp = ''old''\<rparr>"
  by (simp add: TimestampedFixedField_parse_def FixedField_parse_def parse_string_def
      NumParser_parse_def token_def is_digit_def check_unit_def unit_suffix_def new_field_def)

subsection \<open>RawField\<close>

lemma RawField_parse_eq:
  "RawField_parse ch str f = (Success () [], f\<lparr>val := ch (val f) str (length str)\<rparr>)"
  by (simp add: RawField_parse_def)


subsection \<open>Presence flags\<close>

lemma StringField_present:
  "present (snd (StringField_parse ps minlen maxlen str f)) = present f"
  by (simp add: StringField_parse_def Let_def split: ParseResult.splits)

lemma FixedField_present:
  "present (snd (FixedField_parse np unit int_unit str f)) = present f"
  by (simp add: FixedField_parse_def Let_def split: ParseResult.splits)

lemma TimestampedFixedField_present:
  "present (snd (TimestampedFixedField_parse ps np unit int_unit str f)) = present f"
  by (simp add: TimestampedFixedField_parse_def Let_def FixedField_present
      split: ParseResult.splits)

lemma IntField_present:
  "present (snd (IntField_parse np unit str f)) = present f"
  by (simp add: IntField_parse_def Let_def split: ParseResult.splits)

text \<open>
  C7. The presence flag of a field is false when the field is constructed, and the parse
  operation of no field type (String, Timestamp, Fixed, Timestamped-Fixed, Int, Raw) changes
  it, whether the call succeeds or fails and whatever the scanners and the helper return.
\<close>

theorem parse_keeps_presence_flag:
  "present (new_field v0) = False
   \<and> present (snd (StringField_parse ps minlen maxlen str fs)) = present fs
   \<and> present (snd (TimestampField_parse ps str fs)) = present fs
   \<and> present (snd (FixedField_parse np unit int_unit str ff)) = present ff
   \<and> present (snd (TimestampedFixedField_parse ps np unit int_unit str ft)) = present ft
   \<and> present (snd (IntField_parse np unit' str fi)) = present fi
   \<and> present (snd (RawField_parse ch str fs)) = present fs"
  by (simp add: new_field_def StringField_present TimestampField_parse_def
      FixedField_present TimestampedFixedField_present IntField_present RawField_parse_eq)

subsection \<open>The catalog\<close>

lemmas catalog_defs =
  catalog_def identification_def frequency_def DEFINE_FIELD_def ObisId5_def

text \<open>
  C8. The OBIS ids of the catalog are pairwise distinct, and the identification entry is the
  one entry whose id is the sentinel with all six components 255. This holds whatever the
  constructor of \<open>ObisId\<close> gives the sixth component of an id written with five.
\<close>

theorem catalog_ids_distinct:
  "distinct (map obis (catalog d))
   \<and> filter (\<lambda>e. obis e = ObisId 255 255 255 255 255 255) (catalog d) = [identification]"
  by (simp add: catalog_defs)

text \<open>
  C9 fails on the entry \<open>frequency\<close>: it uses \<open>FixedField\<close> and passes the one unit \<open>Hz\<close>, so
  nothing is bound to \<open>_int_unit\<close> and there is no \<open>int_unit()\<close> for it. It is the only
  \<open>FixedField\<close> entry that does not bind two units.
\<close>

theorem frequency_binds_one_unit:
  "field_type (frequency d) = FixedField
   \<and> field_args (frequency d) = [Unit ''Hz'']
   \<and> unit_of (frequency d) = Some ''Hz''
   \<and> int_unit_of (frequency d) = None
   \<and> filter (\<lambda>e. field_type e = FixedField \<and> length (field_args e) \<noteq> 2) (catalog d)
       = [frequency d]"
  by (simp add: catalog_defs unit_of_def int_unit_of_def units_Hz_def)

end
